theory Spec2Isabelle
  imports Complex_Main "HOL-Library.Sublist" "HOL-Library.Multiset"
begin

section \<open>Strings and the regular expressions of \<open>foodbot.py\<close>\<close>

text \<open>
  Python strings are modelled as \<open>string\<close>: a character is a code point below 256, so
  the model covers the text whose characters lie in that range. On it \<open>str.lower()\<close>
  adds 32 to the code points of \<open>A\<close>..\<open>Z\<close> and of the capital letters from 192 to 222
  (215, the multiplication sign, is no letter) and leaves every other character alone.
  The classes of the \<open>re\<close> module are those of Unicode: \<open>\w\<close> holds the digits, the
  letters and the underscore of ASCII and, above 127, the code points that are letters or
  numbers; \<open>\d\<close> is \<open>0\<close>..\<open>9\<close>; \<open>\s\<close> is 9 to 13, 28 to 32, 133 and 160.
\<close>

definition lower_char :: "char \<Rightarrow> char" where
  "lower_char c =
     (let n = (of_char c :: nat)
      in if (65 \<le> n \<and> n \<le> 90) \<or> (192 \<le> n \<and> n \<le> 214) \<or> (216 \<le> n \<and> n \<le> 222)
         then char_of (n + 32) else c)"

definition lower :: "string \<Rightarrow> string" where
  "lower s = map lower_char s"

definition is_word_char :: "char \<Rightarrow> bool" where
  "is_word_char c =
     (let n = (of_char c :: nat) in
        (48 \<le> n \<and> n \<le> 57) \<or> (65 \<le> n \<and> n \<le> 90) \<or> n = 95 \<or> (97 \<le> n \<and> n \<le> 122)
        \<or> n = 170 \<or> n = 178 \<or> n = 179 \<or> n = 181 \<or> n = 185 \<or> n = 186
        \<or> (188 \<le> n \<and> n \<le> 190) \<or> (192 \<le> n \<and> n \<le> 214) \<or> (216 \<le> n \<and> n \<le> 246)
        \<or> (248 \<le> n \<and> n \<le> 255))"

definition is_digit :: "char \<Rightarrow> bool" where
  "is_digit c = (let n = (of_char c :: nat) in 48 \<le> n \<and> n \<le> 57)"

definition is_space :: "char \<Rightarrow> bool" where
  "is_space c =
     (let n = (of_char c :: nat) in (9 \<le> n \<and> n \<le> 13) \<or> (28 \<le> n \<and> n \<le> 32) \<or> n = 133 \<or> n = 160)"

text \<open>\<open>sub in s\<close>: \<open>sub\<close> occurs in \<open>s\<close> as a contiguous block.\<close>

fun contains :: "string \<Rightarrow> string \<Rightarrow> bool" where
  "contains sub [] = (sub = [])"
| "contains sub (c # cs) = (prefix sub (c # cs) \<or> contains sub cs)"

text \<open>\<open>re.search(r"(w1|w2|...)", s)\<close> for literal alternatives.\<close>

definition search_any :: "string list \<Rightarrow> string \<Rightarrow> bool" where
  "search_any ws s = list_ex (\<lambda>w. contains w s) ws"

text \<open>
  \<open>\b\<close> holds between two positions when exactly one side is a word character; the
  start and the end of the string count as non-word.
\<close>

definition word_side :: "char option \<Rightarrow> bool" where
  "word_side x = (case x of None \<Rightarrow> False | Some c \<Rightarrow> is_word_char c)"

definition boundary :: "char option \<Rightarrow> char option \<Rightarrow> bool" where
  "boundary before after = (word_side before \<noteq> word_side after)"

definition head_opt :: "string \<Rightarrow> char option" where
  "head_opt s = (case s of [] \<Rightarrow> None | c # _ \<Rightarrow> Some c)"

definition last_opt :: "char option \<Rightarrow> string \<Rightarrow> char option" where
  "last_opt before w = (case w of [] \<Rightarrow> before | _ # _ \<Rightarrow> Some (last w))"

text \<open>\<open>\bw\b\<close> matched at the start of \<open>s\<close>, where \<open>before\<close> is the character before it.\<close>

definition bounded_at :: "string \<Rightarrow> char option \<Rightarrow> string \<Rightarrow> bool" where
  "bounded_at w before s =
     (prefix w s \<and> boundary before (head_opt s)
      \<and> boundary (last_opt before w) (head_opt (drop (length w) s)))"

fun search_from :: "string \<Rightarrow> char option \<Rightarrow> string \<Rightarrow> bool" where
  "search_from w before [] = bounded_at w before []"
| "search_from w before (c # cs) = (bounded_at w before (c # cs) \<or> search_from w (Some c) cs)"

text \<open>\<open>re.search(r"\bw\b", s)\<close>.\<close>

definition search_bounded :: "string \<Rightarrow> string \<Rightarrow> bool" where
  "search_bounded w s = search_from w None s"

text \<open>\<open>re.search(r"\$\d+", s)\<close>: a dollar sign directly followed by a digit.\<close>

fun search_dollar_amount :: "string \<Rightarrow> bool" where
  "search_dollar_amount [] = False"
| "search_dollar_amount [c] = False"
| "search_dollar_amount (c # d # cs) =
     ((c = CHR ''$'' \<and> is_digit d) \<or> search_dollar_amount (d # cs))"

section \<open>Interest score (\<open>calculate_interest\<close>)\<close>

text \<open>
  The body of \<open>calculate_interest\<close>, statement by statement: \<open>score\<close> is rebound by each
  \<open>if\<close> in the order of the source, and the result is \<open>max(0, min(100, score))\<close>.
\<close>

definition calculate_interest :: "string \<Rightarrow> int" where
  "calculate_interest user_input =
     (if user_input = [] then 0
      else
        let text = lower user_input;
            score = (0::int);
            score = (if search_any [''spicy'', ''vegan'', ''cheese'', ''burger'', ''pizza'',
                                    ''taco'', ''wrap'', ''salad''] text
                     then score + 15 else score);
            score = (if contains ''vegetarian'' text \<or> contains ''vegan'' text
                     then score + 10 else score);
            score = (if contains ''$'' text
                        \<or> (search_bounded ''under'' text \<or> search_bounded ''below'' text)
                     then score + 5 else score);
            score = (if search_any [''happy'', ''adventurous'', ''tired'', ''sad'', ''hungry'',
                                    ''indulgent''] text
                     then score + 20 else score);
            score = (if contains ''?'' text then score + 10 else score);
            score = (if search_any [''love'', ''perfect'', ''amazing'', ''great'', ''yum'',
                                    ''yummy''] text
                     then score + 8 else score);
            score = (if contains ''how much'' text \<or> contains ''price'' text
                        \<or> search_dollar_amount text
                     then score + 25 else score);
            score = (if search_any [''order'', ''add to cart'', ''take it'', ''i'll take it'',
                                    ''i will take it'', ''buy''] text
                     then score + 30 else score);
            score = (if search_bounded ''maybe'' text \<or> search_bounded ''not sure'' text
                     then score - 10 else score);
            score = (if contains ''too expensive'' text \<or> contains ''expensive'' text
                     then score - 15 else score);
            score = (if (search_bounded ''don't like'' text \<or> search_bounded ''dont like'' text)
                        \<or> search_bounded ''not for me'' text \<or> search_bounded ''hate'' text
                     then score - 25 else score)
        in max 0 (min 100 score))"

text \<open>
  The rule table of the specification (section 4.2): one pattern class and one weight per
  row, in the order of the table. Every row is looked at on its own; the weights of the
  rows that match are added up.
\<close>

definition interest_rules :: "((string \<Rightarrow> bool) \<times> int) list" where
  "interest_rules =
     [(search_any [''spicy'', ''vegan'', ''cheese'', ''burger'', ''pizza'', ''taco'', ''wrap'',
                   ''salad''], 15),
      (\<lambda>t. contains ''vegetarian'' t \<or> contains ''vegan'' t, 10),
      (\<lambda>t. contains ''$'' t \<or> search_bounded ''under'' t \<or> search_bounded ''below'' t, 5),
      (search_any [''happy'', ''adventurous'', ''tired'', ''sad'', ''hungry'', ''indulgent''], 20),
      (contains ''?'', 10),
      (search_any [''love'', ''perfect'', ''amazing'', ''great'', ''yum'', ''yummy''], 8),
      (\<lambda>t. contains ''how much'' t \<or> contains ''price'' t \<or> search_dollar_amount t, 25),
      (search_any [''order'', ''add to cart'', ''take it'', ''i'll take it'', ''i will take it'',
                   ''buy''], 30),
      (\<lambda>t. search_bounded ''maybe'' t \<or> search_bounded ''not sure'' t, - 10),
      (\<lambda>t. contains ''too expensive'' t \<or> contains ''expensive'' t, - 15),
      (\<lambda>t. search_bounded ''don't like'' t \<or> search_bounded ''dont like'' t
            \<or> search_bounded ''not for me'' t \<or> search_bounded ''hate'' t, - 25)]"

definition fired :: "(string \<Rightarrow> bool) \<times> int \<Rightarrow> string \<Rightarrow> int" where
  "fired r t = (if fst r t then snd r else 0)"

definition weighted_sum :: "string \<Rightarrow> int" where
  "weighted_sum t = sum_list (map (\<lambda>r. fired r t) interest_rules)"


section \<open>The catalog and the recommendation engine\<close>

text \<open>
  A row of the \<open>products\<close> table, with the columns the engine reads. The rows are those
  that \<open>generate_products\<close> builds: every field is present. The list columns are stored
  as JSON text and read back with \<open>json.loads\<close>; the model keeps the list itself.
  Prices are the real numbers the stored floats stand for.
\<close>

record product =
  product_id :: string
  name :: string
  category :: string
  description :: string
  ingredients :: "string list"
  price :: real
  mood_tags :: "string list"
  popularity_score :: int

text \<open>A row of the data frame once the \<open>match_score\<close> column has been added.\<close>

record scored_item =
  item :: product
  match_score :: int

text \<open>
  A row of the \<open>conversations\<close> table and the two tables of the database. The bot's
  response is one of two messages: so many matches found, or none.
\<close>

datatype bot_message = Found nat | No_match

record conversation =
  timestamp :: string
  user_message :: string
  bot_response :: bot_message
  interest_score :: int
  recommended_products :: "scored_item list"
  session_id :: string

record database =
  products :: "product list"
  conversations :: "conversation list"

text \<open>Python truthiness of the optional arguments: \<open>None\<close>, \<open>0.0\<close>, \<open>""\<close> and \<open>[]\<close> are false.\<close>

definition truthy_num :: "real option \<Rightarrow> bool" where
  "truthy_num b = (case b of None \<Rightarrow> False | Some x \<Rightarrow> x \<noteq> 0)"

definition truthy_seq :: "'a list option \<Rightarrow> bool" where
  "truthy_seq s = (case s of None \<Rightarrow> False | Some xs \<Rightarrow> xs \<noteq> [])"

text \<open>
  SQLite's \<open>LIKE\<close>: \<open>%\<close> stands for any run of characters, \<open>_\<close> for any one character,
  and the letters of ASCII, and only those, are compared without regard to case.
\<close>

definition ascii_lower_char :: "char \<Rightarrow> char" where
  "ascii_lower_char c =
     (let n = (of_char c :: nat) in if 65 \<le> n \<and> n \<le> 90 then char_of (n + 32) else c)"

definition ascii_lower :: "string \<Rightarrow> string" where
  "ascii_lower s = map ascii_lower_char s"

fun like :: "string \<Rightarrow> string \<Rightarrow> bool" where
  "like [] s = (s = [])"
| "like (p # ps) [] = (p = CHR ''%'' \<and> like ps [])"
| "like (p # ps) (c # cs) =
     (if p = CHR ''%'' then like ps (c # cs) \<or> like (p # ps) cs
      else (p = CHR ''_'' \<or> ascii_lower_char p = ascii_lower_char c) \<and> like ps cs)"

text \<open>
  The query of \<open>recommend_products\<close>: \<open>SELECT * FROM products WHERE 1=1\<close>, with
  \<open>AND price <= ?\<close> appended under \<open>if budget:\<close> and \<open>AND category LIKE ?\<close> (the
  parameter being \<open>%category%\<close>) under \<open>if category:\<close>. Rows come in table order.
\<close>

definition price_clause :: "real option \<Rightarrow> product \<Rightarrow> bool" where
  "price_clause budget p = (if truthy_num budget then price p \<le> the budget else True)"

definition category_clause :: "string option \<Rightarrow> product \<Rightarrow> bool" where
  "category_clause cat p =
     (if truthy_seq cat then like (''%'' @ the cat @ ''%'') (category p) else True)"

definition select_products :: "product list \<Rightarrow> real option \<Rightarrow> string option \<Rightarrow> product list" where
  "select_products rows budget cat =
     filter (\<lambda>p. price_clause budget p \<and> category_clause cat p) rows"

text \<open>
  The scoring statements work on whole columns: \<open>df["match_score"] += f(row)\<close> adds to
  every row of the frame.
\<close>

definition add_to_score :: "(product \<Rightarrow> int) \<Rightarrow> scored_item list \<Rightarrow> scored_item list" where
  "add_to_score f df = map (\<lambda>r. r\<lparr>match_score := match_score r + f (item r)\<rparr>) df"

definition with_match_score :: "product list \<Rightarrow> scored_item list" where
  "with_match_score rows = map (\<lambda>p. \<lparr>item = p, match_score = popularity_score p\<rparr>) rows"

definition mood_hit :: "string \<Rightarrow> product \<Rightarrow> int" where
  "mood_hit mood p = (if mood \<in> set (mood_tags p) then 1 else 0)"

definition name_hit :: "string \<Rightarrow> product \<Rightarrow> int" where
  "name_hit kw p = of_bool (contains kw (lower (name p)))"

definition description_hit :: "string \<Rightarrow> product \<Rightarrow> int" where
  "description_hit kw p = of_bool (contains kw (lower (description p)))"

definition ingredients_hit :: "string \<Rightarrow> product \<Rightarrow> int" where
  "ingredients_hit kw p = of_bool (list_ex (\<lambda>ing. contains kw (lower ing)) (ingredients p))"

text \<open>
  The loop \<open>for kw in keywords\<close> of the database path. The patterns handed to
  \<open>str.contains\<close> are the keywords, which the caller cuts out of the input with \<open>\w+\<close>:
  for such a pattern the search is a search for the substring.
\<close>

fun keyword_loop :: "string list \<Rightarrow> scored_item list \<Rightarrow> scored_item list" where
  "keyword_loop [] df = df"
| "keyword_loop (kw # kws) df =
     (let kw_lower = lower kw;
          df = add_to_score (name_hit kw_lower) df;
          df = add_to_score (description_hit kw_lower) df;
          df = add_to_score (ingredients_hit kw_lower) df
      in keyword_loop kws df)"

definition score_products :: "string option \<Rightarrow> string list option \<Rightarrow> product list \<Rightarrow> scored_item list" where
  "score_products mood keywords rows =
     (let df = with_match_score rows;
          df = (if truthy_seq mood then add_to_score (mood_hit (the mood)) df else df);
          df = (if truthy_seq keywords then keyword_loop (the keywords) df else df)
      in df)"

text \<open>
  \<open>recommend_products\<close>. The call \<open>df.sort_values("match_score", ascending=False)\<close> is the
  library's; it is the parameter \<open>sort_values\<close>. An empty frame is returned as it is.
\<close>

definition recommend_products ::
  "(scored_item list \<Rightarrow> scored_item list) \<Rightarrow> database \<Rightarrow> string option \<Rightarrow> real option
     \<Rightarrow> string option \<Rightarrow> string list option \<Rightarrow> scored_item list" where
  "recommend_products sort_values d mood budget cat keywords =
     (let df = select_products (products d) budget cat
      in if df \<noteq> [] then take 10 (sort_values (score_products mood keywords df))
         else take 10 [])"

text \<open>
  The fallback of the application body, used when there is no database: no filter, the
  category scored instead, the keywords used as they are.
\<close>

definition category_hit :: "string \<Rightarrow> product \<Rightarrow> int" where
  "category_hit cat p = of_bool (contains (lower cat) (lower (category p)))"

fun keyword_loop_fallback :: "string list \<Rightarrow> scored_item list \<Rightarrow> scored_item list" where
  "keyword_loop_fallback [] df = df"
| "keyword_loop_fallback (kw # kws) df =
     (let df = add_to_score (name_hit kw) df;
          df = add_to_score (description_hit kw) df;
          df = add_to_score (ingredients_hit kw) df
      in keyword_loop_fallback kws df)"

definition score_fallback :: "string option \<Rightarrow> string option \<Rightarrow> string list \<Rightarrow> product list \<Rightarrow> scored_item list" where
  "score_fallback mood cat keywords rows =
     (let df = with_match_score rows;
          df = (if truthy_seq mood then add_to_score (mood_hit (the mood)) df else df);
          df = (if truthy_seq cat then add_to_score (category_hit (the cat)) df else df);
          df = keyword_loop_fallback keywords df
      in df)"

definition recommend_fallback ::
  "(scored_item list \<Rightarrow> scored_item list) \<Rightarrow> product list \<Rightarrow> string option
     \<Rightarrow> string option \<Rightarrow> string list \<Rightarrow> scored_item list" where
  "recommend_fallback sort_values rows mood cat keywords =
     take 10 (sort_values (score_fallback mood cat keywords rows))"

text \<open>
  What the code relies on from \<open>sort_values\<close>: the rows come back rearranged, never
  changed, with the scores going down. The order in which the library returns rows with
  equal scores is not fixed by the source, which names no sorting method.
\<close>

definition sorts_descending :: "(scored_item list \<Rightarrow> scored_item list) \<Rightarrow> bool" where
  "sorts_descending srt =
     (\<forall>df. mset (srt df) = mset df \<and> sorted_wrt (\<lambda>a b. match_score b \<le> match_score a) (srt df))"

text \<open>A sorting function of that kind, which keeps equal scores in table order.\<close>

definition stable_descending :: "scored_item list \<Rightarrow> scored_item list" where
  "stable_descending df = sort_key (\<lambda>r. - match_score r) df"

text \<open>
  The scoring rules in the words of the specification (section 4.3): one point when the
  mood is given and is one of the item's mood tags; one point when the category is given
  and occurs in the item's category, letter case aside; and for each keyword, repeated
  keywords counted each time, one point for the name, one for the description and one
  for the ingredients that contain it, letter case aside.
\<close>

definition mood_points :: "string option \<Rightarrow> product \<Rightarrow> int" where
  "mood_points mood p =
     (case mood of None \<Rightarrow> 0 | Some m \<Rightarrow> of_bool (m \<in> set (mood_tags p)))"

definition category_points :: "string option \<Rightarrow> product \<Rightarrow> int" where
  "category_points cat p =
     (case cat of None \<Rightarrow> 0 | Some c \<Rightarrow> of_bool (contains (lower c) (lower (category p))))"

definition keyword_points :: "string list \<Rightarrow> product \<Rightarrow> int" where
  "keyword_points kws p =
     (\<Sum>kw\<leftarrow>kws.
        of_bool (contains (lower kw) (lower (name p)))
        + of_bool (contains (lower kw) (lower (description p)))
        + of_bool (list_ex (\<lambda>ing. contains (lower kw) (lower ing)) (ingredients p)))"

text \<open>
  The two items of the end-to-end scenario of the specification (section 8), a third
  item as popular as the second, and a database that holds the first two.
\<close>

definition dragon :: product where
  "dragon =
     \<lparr>product_id = ''FF001'', name = ''Spicy Fusion Dragon Burger'', category = ''Burgers'',
      description = ''Spicy Fusion Dragon Burger, a delicious burgers option.'',
      ingredients = [''main ingredient'', ''seasoning'', ''garnish''], price = 999 / 100,
      mood_tags = [''spicy''], popularity_score = 80\<rparr>"

definition classic :: product where
  "classic =
     \<lparr>product_id = ''FF002'', name = ''Classic All-American Burger'', category = ''Burgers'',
      description = ''Classic All-American Burger, a delicious burgers option.'',
      ingredients = [''main ingredient'', ''seasoning'', ''garnish''], price = 850 / 100,
      mood_tags = [''comfort''], popularity_score = 95\<rparr>"

definition bacon :: product where
  "bacon =
     \<lparr>product_id = ''FF004'', name = ''BBQ Bacon Cheeseburger'', category = ''Burgers'',
      description = ''BBQ Bacon Cheeseburger, a delicious burgers option.'',
      ingredients = [''main ingredient'', ''seasoning'', ''garnish''], price = 1250 / 100,
      mood_tags = [''indulgent''], popularity_score = 95\<rparr>"

definition shop :: database where
  "shop = \<lparr>products = [dragon, classic], conversations = []\<rparr>"

text \<open>Every row of a frame has a score at or above the popularity of its item.\<close>

definition above_baseline :: "scored_item list \<Rightarrow> bool" where
  "above_baseline df = list_all (\<lambda>r. popularity_score (item r) \<le> match_score r) df"

section \<open>Intent extraction (application body)\<close>

text \<open>
  The detection statements of the application body. The category is the first of
  \<open>burger\<close>, \<open>pizza\<close>, \<open>chicken\<close> found in the lowercased input (an \<open>if\<close>/\<open>elif\<close> chain), the
  mood is \<open>spicy\<close> when that word occurs.
\<close>

definition detect_category :: "string \<Rightarrow> string option" where
  "detect_category user_input =
     (if contains ''burger'' (lower user_input) then Some ''Burgers''
      else if contains ''pizza'' (lower user_input) then Some ''Pizza''
      else if contains ''chicken'' (lower user_input) then Some ''Fried Chicken''
      else None)"

definition detect_mood :: "string \<Rightarrow> string option" where
  "detect_mood user_input = (if contains ''spicy'' (lower user_input) then Some ''spicy'' else None)"

text \<open>
  \<open>re.search(r"under\s*\$?(\d+)", s)\<close>: at the first position where it matches, the word
  \<open>under\<close>, any white space, at most one dollar sign, and the longest run of digits, which
  must not be empty. The three classes have no character in common, so the greedy match
  is the only one. The result is group 1.
\<close>

definition budget_at :: "string \<Rightarrow> string option" where
  "budget_at s =
     (if prefix ''under'' s then
        let r = dropWhile is_space (drop 5 s);
            r = (case r of [] \<Rightarrow> r | c # r' \<Rightarrow> if c = CHR ''$'' then r' else r);
            ds = takeWhile is_digit r
        in if ds = [] then None else Some ds
      else None)"

fun search_budget :: "string \<Rightarrow> string option" where
  "search_budget [] = None"
| "search_budget (c # cs) =
     (case budget_at (c # cs) of Some ds \<Rightarrow> Some ds | None \<Rightarrow> search_budget cs)"

text \<open>\<open>float(ds)\<close> for a string of decimal digits.\<close>

definition digit_value :: "char \<Rightarrow> nat" where
  "digit_value c = of_char c - 48"

definition decimal :: "string \<Rightarrow> nat" where
  "decimal ds = foldl (\<lambda>n c. 10 * n + digit_value c) 0 ds"

definition detect_budget :: "string \<Rightarrow> real option" where
  "detect_budget user_input =
     (case search_budget (lower user_input) of
        None \<Rightarrow> None
      | Some ds \<Rightarrow> Some (real (decimal ds)))"

text \<open>
  \<open>re.findall(r"\w+", s)\<close>: the maximal runs of word characters, from left to right;
  \<open>cur\<close> is the run being read.
\<close>

fun findall_words :: "string \<Rightarrow> string \<Rightarrow> string list" where
  "findall_words cur [] = (if cur = [] then [] else [cur])"
| "findall_words cur (c # cs) =
     (if is_word_char c then findall_words (cur @ [c]) cs
      else if cur = [] then findall_words [] cs
      else cur # findall_words [] cs)"

definition stopwords :: "string list" where
  "stopwords = [''i'', ''want'', ''some'', ''a'', ''an'', ''the'', ''please'', ''order'']"

definition extract_keywords :: "string \<Rightarrow> string list" where
  "extract_keywords user_input =
     filter (\<lambda>kw. kw \<notin> set stopwords) (findall_words [] (lower user_input))"

section \<open>Seeding the catalog and logging a conversation\<close>

text \<open>
  What can go wrong in the store is an argument of the model: a statement of the
  database connection either takes effect or raises, and which of the two is not decided
  by the program. In \<open>populate_products_safe\<close> the count query may raise, or the insert or
  commit of the batch with a given index; in \<open>log_conversation\<close> the insert or its commit.
\<close>

datatype fault = No_fault | Count_fails string | Batch_fails nat string

record populate_result =
  success :: bool
  inserted :: nat
  error :: "string option"

text \<open>
  \<open>INSERT OR REPLACE\<close> on the primary key \<open>product_id\<close>: a row with the same key is
  removed and the new row is added at the end of the table.
\<close>

definition insert_or_replace :: "product \<Rightarrow> product list \<Rightarrow> product list" where
  "insert_or_replace row tbl = filter (\<lambda>r. product_id r \<noteq> product_id row) tbl @ [row]"

definition executemany :: "product list \<Rightarrow> product list \<Rightarrow> product list" where
  "executemany batch tbl = foldl (\<lambda>t row. insert_or_replace row t) tbl batch"

text \<open>
  The batches \<open>rows[i:i+batch_size]\<close> for \<open>i\<close> in \<open>range(0, len(rows), batch_size)\<close>, for a
  positive \<open>batch_size\<close>.
\<close>

function batches :: "nat \<Rightarrow> 'a list \<Rightarrow> 'a list list" where
  "batches n xs = (if n = 0 \<or> xs = [] then [] else take n xs # batches n (drop n xs))"
  by pat_completeness auto
termination
  by (relation "measure (\<lambda>(n, xs). length xs)") auto

declare batches.simps [simp del]

text \<open>
  The loop over the batches: each batch is inserted and committed, and counted. A batch
  that raises leaves the batches before it committed and ends the loop with the error.
\<close>

fun insert_batches ::
  "fault \<Rightarrow> nat \<Rightarrow> product list list \<Rightarrow> product list \<Rightarrow> nat \<Rightarrow> product list \<times> (string + nat)" where
  "insert_batches f i [] tbl n = (tbl, Inr n)"
| "insert_batches f i (batch # rest) tbl n =
     (case f of
        Batch_fails j e \<Rightarrow>
          if j = i then (tbl, Inl e)
          else insert_batches f (Suc i) rest (executemany batch tbl) (n + length batch)
      | _ \<Rightarrow> insert_batches f (Suc i) rest (executemany batch tbl) (n + length batch))"

text \<open>
  \<open>populate_products_safe\<close>. The result starts as \<open>success = False, inserted = 0\<close>; an
  exception only fills in \<open>error\<close>. A \<open>batch_size\<close> of zero makes \<open>range\<close> raise.
\<close>

definition populate_products_safe ::
  "fault \<Rightarrow> database \<Rightarrow> product list \<Rightarrow> nat \<Rightarrow> populate_result \<times> database" where
  "populate_products_safe f d prods batch_size =
     (let result = \<lparr>success = False, inserted = 0, error = None\<rparr>
      in case f of
           Count_fails e \<Rightarrow> (result\<lparr>error := Some e\<rparr>, d)
         | _ \<Rightarrow>
           if length (products d) > 0 then (result\<lparr>success := True, inserted := 0\<rparr>, d)
           else if batch_size = 0
             then (result\<lparr>error := Some ''range() arg 3 must not be zero''\<rparr>, d)
           else
             (case insert_batches f 0 (batches batch_size prods) (products d) 0 of
                (tbl, Inl e) \<Rightarrow> (result\<lparr>error := Some e\<rparr>, d\<lparr>products := tbl\<rparr>)
              | (tbl, Inr n) \<Rightarrow>
                  (result\<lparr>success := True, inserted := n\<rparr>, d\<lparr>products := tbl\<rparr>)))"

text \<open>
  \<open>log_conversation\<close>. The body of the \<open>try\<close> is \<open>append_conversation\<close>, which raises when
  the store does; the \<open>except\<close> clause prints the error and the method returns. The state
  of the process is the database and what has been printed. The database of the model
  holds the committed rows: a row whose insert went through and whose commit raised is
  pending on the connection, is not rolled back by the method, and is in no table of the
  model, as it is in none that another connection reads.
\<close>

record process =
  db :: database
  printed :: "string list"

definition append_conversation :: "string option \<Rightarrow> database \<Rightarrow> conversation \<Rightarrow> string + database" where
  "append_conversation raised d turn =
     (case raised of
        Some e \<Rightarrow> Inl e
      | None \<Rightarrow> Inr (d\<lparr>conversations := conversations d @ [turn]\<rparr>))"

definition log_conversation ::
  "string option \<Rightarrow> process \<Rightarrow> string \<Rightarrow> string \<Rightarrow> bot_message \<Rightarrow> int \<Rightarrow> scored_item list
     \<Rightarrow> string \<Rightarrow> string + process" where
  "log_conversation raised p now user_msg bot_msg score recs sid =
     (case append_conversation raised (db p)
             \<lparr>timestamp = now, user_message = user_msg, bot_response = bot_msg,
              interest_score = score, recommended_products = recs, session_id = sid\<rparr> of
        Inr d' \<Rightarrow> Inr (p\<lparr>db := d'\<rparr>)
      | Inl e \<Rightarrow> Inr (p\<lparr>printed := printed p @ [''log_conversation error: '' @ e]\<rparr>))"

text \<open>
  One turn of the application body with a database, under \<open>if user_input:\<close>: the
  interest score, the intent, the recommendations, the message, and the log entry. The
  reply is what the user is shown; for an empty input nothing is computed or logged and
  there is no reply.
\<close>

record reply =
  reply_message :: bot_message
  reply_score :: int
  reply_recs :: "scored_item list"

definition handle_input ::
  "(scored_item list \<Rightarrow> scored_item list) \<Rightarrow> string option \<Rightarrow> string \<Rightarrow> string \<Rightarrow> process
     \<Rightarrow> string \<Rightarrow> string + (reply option \<times> process)" where
  "handle_input sort_values raised now sid p user_input =
     (if user_input = [] then Inr (None, p)
      else
        let score = calculate_interest user_input;
            keywords = extract_keywords user_input;
            cat = detect_category user_input;
            mood = detect_mood user_input;
            budget = detect_budget user_input;
            recs = recommend_products sort_values (db p) mood budget cat (Some keywords);
            bot_msg = (if recs \<noteq> [] then Found (length recs) else No_match)
        in case log_conversation raised p now user_input bot_msg score recs sid of
             Inl e \<Rightarrow> Inl e
           | Inr p' \<Rightarrow>
               Inr (Some \<lparr>reply_message = bot_msg, reply_score = score, reply_recs = recs\<rparr>, p'))"

section \<open>Properties of the interest score\<close>

lemma weighted_sum_empty: "weighted_sum [] = 0"
  by (simp add: weighted_sum_def interest_rules_def fired_def search_any_def
      search_bounded_def bounded_at_def boundary_def word_side_def head_opt_def last_opt_def)

lemma step_add: "(if P then (s::int) + w else s) = s + (if P then w else 0)"
  by simp

lemma step_sub: "(if P then (s::int) - w else s) = s + (if P then - w else 0)"
  by simp

lemma calculate_interest_unfold:
  "s \<noteq> [] \<Longrightarrow> calculate_interest s = max 0 (min 100 (weighted_sum (lower s)))"
  unfolding calculate_interest_def weighted_sum_def interest_rules_def fired_def Let_def
    step_add step_sub
  by (simp split del: if_split cong: if_cong)

text \<open>
  Claim C3. For every input string the interest score is an integer between 0 and 100:
  it is the sum of the weights of all the rules that match the lowercased text, each
  rule counted whether or not another one matched, clamped to the interval from 0 to
  100; the empty string scores exactly 0.
\<close>

theorem calculate_interest_range:
  "0 \<le> calculate_interest s \<and> calculate_interest s \<le> 100
   \<and> calculate_interest s = max 0 (min 100 (weighted_sum (lower s)))
   \<and> calculate_interest [] = 0"
proof -
  have e: "calculate_interest [] = 0"
    by (simp add: calculate_interest_def)
  have u: "calculate_interest s = max 0 (min 100 (weighted_sum (lower s)))"
  proof (cases "s = []")
    case True
    then show ?thesis by (simp add: e weighted_sum_empty lower_def)
  next
    case False
    then show ?thesis by (rule calculate_interest_unfold)
  qed
  have "0 \<le> max 0 (min 100 (weighted_sum (lower s)))"
    and "max 0 (min 100 (weighted_sum (lower s))) \<le> 100"
    by simp_all
  with u e show ?thesis by simp
qed

text \<open>
  Claim C8. The text \<open>I'll take it, it's amazing!\<close> scores at least 38: the
  purchase-intent rule (30) and the positive-sentiment rule (8) both match it, no other
  rule does, and the sum 38 lies inside the clamping interval.
\<close>

theorem calculate_interest_take_it:
  "38 \<le> calculate_interest ''I'll take it, it's amazing!''
   \<and> calculate_interest ''I'll take it, it's amazing!'' = 38
   \<and> search_any [''order'', ''add to cart'', ''take it'', ''i'll take it'', ''i will take it'',
                  ''buy''] (lower ''I'll take it, it's amazing!'')
   \<and> search_any [''love'', ''perfect'', ''amazing'', ''great'', ''yum'', ''yummy'']
        (lower ''I'll take it, it's amazing!'')
   \<and> weighted_sum (lower ''I'll take it, it's amazing!'') = 30 + 8"
  by code_simp
section \<open>Properties of the recommendation engine\<close>

lemma add_to_score_frame:
  "add_to_score f (map (\<lambda>p. \<lparr>item = p, match_score = g p\<rparr>) rows)
     = map (\<lambda>p. \<lparr>item = p, match_score = g p + f p\<rparr>) rows"
  by (simp add: add_to_score_def)

lemma keyword_loop_frame:
  "keyword_loop kws (map (\<lambda>p. \<lparr>item = p, match_score = g p\<rparr>) rows)
     = map (\<lambda>p. \<lparr>item = p, match_score = g p + keyword_points kws p\<rparr>) rows"
proof (induction kws arbitrary: g)
  case Nil
  show ?case by (simp add: keyword_points_def)
next
  case (Cons kw kws)
  show ?case
    by (simp add: Let_def add_to_score_frame Cons.IH keyword_points_def name_hit_def
        description_hit_def ingredients_hit_def add.assoc)
qed

lemma lower_char_idem: "lower_char (lower_char c) = lower_char c"
  by (simp add: lower_char_def Let_def)

lemma lower_idem: "lower (lower s) = lower s"
  by (simp add: lower_def lower_char_idem)

lemma keyword_loop_fallback_frame:
  "list_all (\<lambda>kw. lower kw = kw) kws \<Longrightarrow>
   keyword_loop_fallback kws (map (\<lambda>p. \<lparr>item = p, match_score = g p\<rparr>) rows)
     = map (\<lambda>p. \<lparr>item = p, match_score = g p + keyword_points kws p\<rparr>) rows"
proof (induction kws arbitrary: g)
  case Nil
  show ?case by (simp add: keyword_points_def)
next
  case (Cons kw kws)
  then show ?case
    by (simp add: Let_def add_to_score_frame keyword_points_def name_hit_def
        description_hit_def ingredients_hit_def add.assoc)
qed

lemma score_products_frame:
  assumes "mood \<noteq> Some []"
  shows "score_products mood (Some kws) rows
     = map (\<lambda>p. \<lparr>item = p, match_score = popularity_score p + mood_points mood p + keyword_points kws p\<rparr>) rows"
proof (cases mood)
  case None
  then show ?thesis
    by (cases kws) (simp_all add: score_products_def with_match_score_def truthy_seq_def
        mood_points_def keyword_loop_frame keyword_points_def del: keyword_loop.simps)
next
  case (Some m)
  with assms have "m \<noteq> []" by simp
  with Some show ?thesis
    by (cases kws) (simp_all add: score_products_def with_match_score_def truthy_seq_def
        mood_points_def mood_hit_def add_to_score_frame keyword_loop_frame keyword_points_def del: keyword_loop.simps)
qed

lemma items_add_to_score: "map item (add_to_score f df) = map item df"
  by (simp add: add_to_score_def)

lemma items_keyword_loop: "map item (keyword_loop kws df) = map item df"
  by (induction kws arbitrary: df) (simp_all add: Let_def items_add_to_score)

lemma items_keyword_loop_fallback: "map item (keyword_loop_fallback kws df) = map item df"
  by (induction kws arbitrary: df) (simp_all add: Let_def items_add_to_score)

lemma items_with_match_score: "map item (with_match_score rows) = rows"
  by (simp add: with_match_score_def comp_def)

lemma items_score_products: "map item (score_products mood keywords rows) = rows"
  by (simp add: score_products_def Let_def items_add_to_score items_keyword_loop
      items_with_match_score)

lemma items_score_fallback: "map item (score_fallback mood cat kws rows) = rows"
  by (simp add: score_fallback_def Let_def items_add_to_score items_keyword_loop_fallback
      items_with_match_score)

lemma length_score_products: "length (score_products mood keywords rows) = length rows"
  by (metis items_score_products length_map)


lemma above_baseline_add:
  "(\<And>p. 0 \<le> f p) \<Longrightarrow> above_baseline df \<Longrightarrow> above_baseline (add_to_score f df)"
  by (auto simp: above_baseline_def add_to_score_def list_all_iff intro: add_increasing2)

lemma hits_nonneg:
  "0 \<le> mood_hit m p" "0 \<le> name_hit kw p" "0 \<le> description_hit kw p"
  "0 \<le> ingredients_hit kw p" "0 \<le> category_hit c p"
  by (simp_all add: mood_hit_def name_hit_def description_hit_def ingredients_hit_def
      category_hit_def)

lemma above_baseline_keyword_loop:
  "above_baseline df \<Longrightarrow> above_baseline (keyword_loop kws df)"
  by (induction kws arbitrary: df) (simp_all add: Let_def above_baseline_add hits_nonneg)

lemma above_baseline_keyword_loop_fallback:
  "above_baseline df \<Longrightarrow> above_baseline (keyword_loop_fallback kws df)"
  by (induction kws arbitrary: df) (simp_all add: Let_def above_baseline_add hits_nonneg)

lemma above_baseline_start: "above_baseline (with_match_score rows)"
  by (simp add: above_baseline_def with_match_score_def list_all_iff)

lemma above_baseline_score_products: "above_baseline (score_products mood keywords rows)"
  by (simp add: score_products_def Let_def above_baseline_start above_baseline_add
      above_baseline_keyword_loop hits_nonneg)

lemma above_baseline_score_fallback: "above_baseline (score_fallback mood cat kws rows)"
  by (simp add: score_fallback_def Let_def above_baseline_start above_baseline_add
      above_baseline_keyword_loop_fallback hits_nonneg)

lemma sorts_descending_set: "sorts_descending srt \<Longrightarrow> set (srt df) = set df"
  by (metis sorts_descending_def mset_eq_setD)

lemma sorts_descending_length: "sorts_descending srt \<Longrightarrow> length (srt df) = length df"
  by (metis sorts_descending_def mset_eq_length)

lemma sorts_descending_sorted:
  "sorts_descending srt \<Longrightarrow> sorted_wrt (\<lambda>a b. match_score b \<le> match_score a) (srt df)"
  by (simp add: sorts_descending_def)

lemma sorts_descending_stable: "sorts_descending stable_descending"
  unfolding sorts_descending_def stable_descending_def
proof (intro allI conjI)
  fix df :: "scored_item list"
  show "mset (sort_key (\<lambda>r. - match_score r) df) = mset df" by simp
  have "sorted (map (\<lambda>r. - match_score r) (sort_key (\<lambda>r. - match_score r) df))"
    by (rule sorted_sort_key)
  then show "sorted_wrt (\<lambda>a b. match_score b \<le> match_score a) (sort_key (\<lambda>r. - match_score r) df)"
    by (simp add: sorted_map)
qed

lemma recommend_products_take:
  "sorts_descending srt \<Longrightarrow>
   recommend_products srt d mood budget cat keywords
     = take 10 (srt (score_products mood keywords (select_products (products d) budget cat)))"
proof -
  assume s: "sorts_descending srt"
  have "srt (score_products mood keywords []) = []"
    using sorts_descending_length [OF s, of "score_products mood keywords []"]
    by (simp add: length_score_products)
  then show ?thesis
    by (simp add: recommend_products_def Let_def)
qed

text \<open>
  Claim C1, as amended. For every candidate that survives the filter, the scoring of the
  database path starts from the item's popularity score, adds one when the mood is given
  and is one of the item's mood tags, and adds, for every keyword (a repeated keyword
  counted each time), one when the keyword occurs in the name, one when it occurs in the
  description and one when it occurs in some ingredient, letter case aside. The category
  adds nothing there: in this path it only filters. The keywords are runs of word
  characters, as the caller produces them.
\<close>

theorem score_products_formula:
  assumes "list_all (list_all is_word_char) kws" and "mood \<noteq> Some []"
  shows "score_products mood (Some kws) (select_products (products d) budget cat)
           = map (\<lambda>p. \<lparr>item = p,
                         match_score = popularity_score p + mood_points mood p
                                         + keyword_points kws p\<rparr>)
               (select_products (products d) budget cat)"
  using assms(2) by (rule score_products_frame)

theorem score_products_formula_witness:
  "list_all (list_all is_word_char) [''spicy'', ''burger'', ''under'', ''10'']
   \<and> Some ''spicy'' \<noteq> Some []
   \<and> score_products (Some ''spicy'') (Some [''spicy'', ''burger'', ''under'', ''10''])
        (select_products (products shop) (Some 10) (Some ''Burgers''))
       = map (\<lambda>p. \<lparr>item = p,
                     match_score = popularity_score p + mood_points (Some ''spicy'') p
                                     + keyword_points [''spicy'', ''burger'', ''under'', ''10''] p\<rparr>)
           (select_products (products shop) (Some 10) (Some ''Burgers''))
   \<and> map match_score
         (score_products (Some ''spicy'') (Some [''spicy'', ''burger'', ''under'', ''10''])
            (select_products (products shop) (Some 10) (Some ''Burgers''))) = [85, 97]"
proof -
  have h1: "list_all (list_all is_word_char) [''spicy'', ''burger'', ''under'', ''10'']"
    by code_simp
  have h2: "Some ''spicy'' \<noteq> Some []"
    by simp
  have v: "map match_score
         (score_products (Some ''spicy'') (Some [''spicy'', ''burger'', ''under'', ''10''])
            (select_products (products shop) (Some 10) (Some ''Burgers''))) = [85, 97]"
    by code_simp
  from h1 h2 v score_products_formula [OF h1 h2, of shop "Some 10" "Some ''Burgers''"]
  show ?thesis by (intro conjI)
qed

text \<open>
  The claim as it stands fails: with the category \<open>Burgers\<close> given and found in the
  item's category, and neither mood nor keywords, the database path scores the item at
  its popularity, 95, where the claim's rules give 96.
\<close>

theorem category_bonus_counterexample:
  "map match_score
     (recommend_products stable_descending \<lparr>products = [classic], conversations = []\<rparr>
        None None (Some ''Burgers'') (Some [])) = [95]
   \<and> popularity_score classic + mood_points None classic
       + category_points (Some ''Burgers'') classic + keyword_points [] classic = 96"
  by code_simp

text \<open>
  Claim C10. Every item of a recommendation result, from the database path or from the
  fallback of the application body, has a match score at or above its popularity score.
\<close>

theorem match_score_above_popularity:
  assumes "sorts_descending srt"
    and "r \<in> set (recommend_products srt d mood budget cat keywords)
           \<union> set (recommend_fallback srt rows mood cat kws)"
  shows "popularity_score (item r) \<le> match_score r"
proof -
  let ?db = "score_products mood keywords (select_products (products d) budget cat)"
  let ?fb = "score_fallback mood cat kws rows"
  from assms(2) have "r \<in> set (take 10 (srt ?db)) \<or> r \<in> set (take 10 (srt ?fb))"
    by (simp add: recommend_products_take [OF assms(1)] recommend_fallback_def)
  then have "r \<in> set (srt ?db) \<or> r \<in> set (srt ?fb)"
    by (blast dest: in_set_takeD)
  then have "r \<in> set ?db \<or> r \<in> set ?fb"
    by (simp add: sorts_descending_set [OF assms(1)])
  moreover have "above_baseline ?db" and "above_baseline ?fb"
    by (rule above_baseline_score_products, rule above_baseline_score_fallback)
  ultimately show ?thesis
    by (auto simp: above_baseline_def list_all_iff)
qed

theorem match_score_above_popularity_witness:
  "sorts_descending stable_descending
   \<and> \<lparr>item = dragon, match_score = 85\<rparr>
        \<in> set (recommend_products stable_descending shop (Some ''spicy'') (Some 10)
                  (Some ''Burgers'') (Some [''spicy'', ''burger'', ''under'', ''10'']))
          \<union> set (recommend_fallback stable_descending [dragon, classic] (Some ''spicy'')
                    (Some ''Burgers'') [''spicy'', ''burger'', ''under'', ''10''])
   \<and> popularity_score (item \<lparr>item = dragon, match_score = 85\<rparr>)
        \<le> match_score \<lparr>item = dragon, match_score = 85\<rparr>"
proof -
  have m: "\<lparr>item = dragon, match_score = 85\<rparr>
        \<in> set (recommend_products stable_descending shop (Some ''spicy'') (Some 10)
                  (Some ''Burgers'') (Some [''spicy'', ''burger'', ''under'', ''10'']))
          \<union> set (recommend_fallback stable_descending [dragon, classic] (Some ''spicy'')
                    (Some ''Burgers'') [''spicy'', ''burger'', ''under'', ''10''])"
    by code_simp
  from sorts_descending_stable m match_score_above_popularity [OF sorts_descending_stable m]
  show ?thesis by (intro conjI)
qed

text \<open>
  What the engine adds to the library's sort: for a sort that returns its rows rearranged
  with the scores going down, the result is the first ten rows of the sorted frame, or
  all of them when there are fewer.
\<close>

lemma recommend_products_head_of_sorted:
  assumes "sorts_descending srt"
  shows "sorted_wrt (\<lambda>a b. match_score b \<le> match_score a)
           (recommend_products srt d mood budget cat keywords)
       \<and> length (recommend_products srt d mood budget cat keywords)
           = min 10 (length (select_products (products d) budget cat))
       \<and> (\<exists>rest. mset (recommend_products srt d mood budget cat keywords @ rest)
                    = mset (score_products mood keywords (select_products (products d) budget cat))
                 \<and> sorted_wrt (\<lambda>a b. match_score b \<le> match_score a)
                     (recommend_products srt d mood budget cat keywords @ rest))"
proof -
  let ?df = "score_products mood keywords (select_products (products d) budget cat)"
  have r: "recommend_products srt d mood budget cat keywords = take 10 (srt ?df)"
    by (rule recommend_products_take [OF assms])
  have s: "sorted_wrt (\<lambda>a b. match_score b \<le> match_score a) (srt ?df)"
    by (rule sorts_descending_sorted [OF assms])
  have "sorted_wrt (\<lambda>a b. match_score b \<le> match_score a) (take 10 (srt ?df))"
    using s by (rule sorted_wrt_take)
  moreover have "length (take 10 (srt ?df)) = min 10 (length (select_products (products d) budget cat))"
    by (simp add: sorts_descending_length [OF assms] length_score_products min.commute)
  moreover have "mset (take 10 (srt ?df) @ drop 10 (srt ?df)) = mset ?df"
    using assms by (simp add: sorts_descending_def)
  moreover have "sorted_wrt (\<lambda>a b. match_score b \<le> match_score a)
      (take 10 (srt ?df) @ drop 10 (srt ?df))"
    using s by simp
  ultimately show ?thesis
    unfolding r by blast
qed

section \<open>Properties of the filter\<close>

lemma like_percent: "like ''%'' s"
  by (induction s) simp_all

lemma like_literal_prefix:
  "CHR ''%'' \<notin> set c \<Longrightarrow> CHR ''_'' \<notin> set c \<Longrightarrow>
   like (c @ ''%'') s = prefix (ascii_lower c) (ascii_lower s)"
proof (induction c arbitrary: s)
  case Nil
  then show ?case by (simp add: like_percent ascii_lower_def)
next
  case (Cons a c)
  then show ?case by (cases s) (auto simp: ascii_lower_def)
qed

text \<open>
  For a category without the wildcard characters of \<open>LIKE\<close>, the category clause of the
  query holds exactly when the category occurs in the item's category, the case of the
  ASCII letters aside.
\<close>

lemma like_contains:
  assumes "CHR ''%'' \<notin> set c" and "CHR ''_'' \<notin> set c"
  shows "like (''%'' @ c @ ''%'') s = contains (ascii_lower c) (ascii_lower s)"
proof (induction s)
  case Nil
  from assms show ?case
    using like_literal_prefix [of c "[]"] by (simp add: ascii_lower_def)
next
  case (Cons x xs)
  have "like (''%'' @ c @ ''%'') (x # xs)
          = (like (c @ ''%'') (x # xs) \<or> like (''%'' @ c @ ''%'') xs)"
    by simp
  also have "\<dots> = (prefix (ascii_lower c) (ascii_lower (x # xs))
                   \<or> contains (ascii_lower c) (ascii_lower xs))"
    using assms Cons.IH by (simp add: like_literal_prefix)
  also have "\<dots> = contains (ascii_lower c) (ascii_lower (x # xs))"
    by (simp add: ascii_lower_def)
  finally show ?case .
qed

text \<open>With a budget other than zero, every selected row costs at most the budget.\<close>

lemma select_products_within_budget:
  "b \<noteq> 0 \<Longrightarrow> p \<in> set (select_products rows (Some b) cat) \<Longrightarrow> price p \<le> b"
  by (simp add: select_products_def price_clause_def truthy_num_def)

lemma select_products_exact:
  "b \<noteq> 0 \<Longrightarrow> c \<noteq> [] \<Longrightarrow> CHR ''%'' \<notin> set c \<Longrightarrow> CHR ''_'' \<notin> set c \<Longrightarrow>
   select_products rows (Some b) (Some c)
     = filter (\<lambda>p. price p \<le> b \<and> contains (ascii_lower c) (ascii_lower (category p))) rows"
proof -
  assume b: "b \<noteq> 0" and c: "c \<noteq> []" and w: "CHR ''%'' \<notin> set c" "CHR ''_'' \<notin> set c"
  have "category_clause (Some c) p = contains (ascii_lower c) (ascii_lower (category p))" for p
    using c like_contains [OF w] by (simp add: category_clause_def truthy_seq_def)
  with b show ?thesis
    by (simp add: select_products_def price_clause_def truthy_num_def)
qed

text \<open>
  Claim C4. The filter is meant to keep the items that cost at most the budget whenever
  a budget is present. The code tests \<open>if budget:\<close>, and a budget of zero is false in
  Python: for the input \<open>burger under $0\<close> the budget found is 0.0, the price clause is
  left out of the query, and both burgers of the catalog are returned although each costs
  more than the budget.
\<close>

theorem budget_zero_not_applied:
  "detect_budget ''burger under $0'' = Some 0
   \<and> detect_category ''burger under $0'' = Some ''Burgers''
   \<and> select_products (products shop) (detect_budget ''burger under $0'')
        (detect_category ''burger under $0'') = [dragon, classic]
   \<and> map (\<lambda>r. product_id (item r))
        (recommend_products stable_descending shop (detect_mood ''burger under $0'')
           (detect_budget ''burger under $0'') (detect_category ''burger under $0'')
           (Some (extract_keywords ''burger under $0''))) = [''FF002'', ''FF001'']
   \<and> \<not> price classic \<le> 0 \<and> \<not> price dragon \<le> 0"
  by code_simp

section \<open>Properties of the intent extraction\<close>

text \<open>
  Claim C7. For the input \<open>spicy burger under $10\<close> the category found is \<open>Burgers\<close>, the
  mood is \<open>spicy\<close> and the budget is 10. The budget is an inclusive upper bound of the
  price, an item that costs exactly 10 passes the price clause, and it is taken from the
  first place where the pattern matches.
\<close>

theorem extract_spicy_burger_under_10:
  "detect_category ''spicy burger under $10'' = Some ''Burgers''
   \<and> detect_mood ''spicy burger under $10'' = Some ''spicy''
   \<and> detect_budget ''spicy burger under $10'' = Some 10
   \<and> price_clause (detect_budget ''spicy burger under $10'') (classic\<lparr>price := 10\<rparr>)
   \<and> \<not> price_clause (detect_budget ''spicy burger under $10'') (classic\<lparr>price := 1001 / 100\<rparr>)
   \<and> detect_budget ''under $10 or under 5'' = Some 10
   \<and> detect_budget ''spicy burger UNDER 10'' = Some 10"
  by code_simp

section \<open>Properties of the logging\<close>

lemma log_conversation_returns:
  "log_conversation raised p now u b s recs sid
     = Inr (case raised of
              None \<Rightarrow> p\<lparr>db := (db p)\<lparr>conversations := conversations (db p) @
                         [\<lparr>timestamp = now, user_message = u, bot_response = b,
                           interest_score = s, recommended_products = recs, session_id = sid\<rparr>]\<rparr>\<rparr>
            | Some e \<Rightarrow> p\<lparr>printed := printed p @ [''log_conversation error: '' @ e]\<rparr>)"
  by (cases raised) (simp_all add: log_conversation_def append_conversation_def)

lemma log_conversation_keeps_products:
  "log_conversation raised p now u b s recs sid = Inr p' \<Longrightarrow> products (db p') = products (db p)"
  by (cases raised) (auto simp: log_conversation_returns)

text \<open>
  Claim C9. An error raised while the conversation is appended to the log is caught:
  \<open>log_conversation\<close> prints it and returns, whatever its arguments, and leaves the
  database as it was. The turn that calls it returns the same reply whether the log
  works or not.
\<close>

theorem log_conversation_never_raises:
  "(\<exists>p'. log_conversation raised p now u b s recs sid = Inr p')
   \<and> log_conversation (Some e) p now u b s recs sid
       = Inr (p\<lparr>printed := printed p @ [''log_conversation error: '' @ e]\<rparr>)
   \<and> (\<exists>rep p1 p2. handle_input srt (Some e) now sid p i = Inr (rep, p1)
                   \<and> handle_input srt None now sid p i = Inr (rep, p2)
                   \<and> db p1 = db p)"
proof -
  have 1: "\<exists>p'. log_conversation raised p now u b s recs sid = Inr p'"
    by (simp add: log_conversation_returns)
  have 2: "log_conversation (Some e) p now u b s recs sid
       = Inr (p\<lparr>printed := printed p @ [''log_conversation error: '' @ e]\<rparr>)"
    by (simp add: log_conversation_returns)
  have 3: "\<exists>rep p1 p2. handle_input srt (Some e) now sid p i = Inr (rep, p1)
                   \<and> handle_input srt None now sid p i = Inr (rep, p2)
                   \<and> db p1 = db p"
    by (simp add: handle_input_def Let_def log_conversation_returns)
  from 1 2 3 show ?thesis by (intro conjI)
qed

section \<open>Properties of the seeding\<close>

lemma insert_or_replace_nonempty: "insert_or_replace row tbl \<noteq> []"
  by (simp add: insert_or_replace_def)

lemma executemany_nonempty: "tbl \<noteq> [] \<or> batch \<noteq> [] \<Longrightarrow> executemany batch tbl \<noteq> []"
proof -
  have "t \<noteq> [] \<or> b \<noteq> [] \<Longrightarrow> foldl (\<lambda>t row. insert_or_replace row t) t b \<noteq> []" for t b
    by (induction b arbitrary: t) (simp_all add: insert_or_replace_nonempty)
  then show "tbl \<noteq> [] \<or> batch \<noteq> [] \<Longrightarrow> executemany batch tbl \<noteq> []"
    by (simp add: executemany_def)
qed

lemma insert_batches_keeps_rows:
  "insert_batches f i bss tbl n = (tbl', r) \<Longrightarrow> tbl \<noteq> [] \<Longrightarrow> tbl' \<noteq> []"
proof (induction bss arbitrary: i tbl n)
  case Nil
  then show ?case by simp
next
  case (Cons b bss)
  have e: "executemany b tbl \<noteq> []"
    using Cons.prems(2) by (simp add: executemany_nonempty)
  from Cons.prems(1) show ?case
    using Cons.IH [OF _ e] Cons.prems(2)
    by (cases f) (auto split: if_splits)
qed

lemma insert_batches_first:
  "insert_batches f i (b # bss) tbl n = (tbl', Inr m) \<Longrightarrow> b \<noteq> [] \<Longrightarrow> tbl' \<noteq> []"
proof -
  assume a: "insert_batches f i (b # bss) tbl n = (tbl', Inr m)" and b: "b \<noteq> []"
  have e: "executemany b tbl \<noteq> []"
    using b by (simp add: executemany_nonempty)
  from a have "insert_batches f (Suc i) bss (executemany b tbl) (n + length b) = (tbl', Inr m)"
    by (cases f) (auto split: if_splits)
  then show "tbl' \<noteq> []"
    using e by (rule insert_batches_keeps_rows)
qed

lemma insert_batches_no_fault:
  "insert_batches No_fault i bss tbl n = (tbl', r) \<Longrightarrow> \<exists>m. r = Inr m"
  by (induction bss arbitrary: i tbl n) auto

lemma batches_empty: "batches bs [] = []"
  by (subst batches.simps) simp

lemma batches_first:
  "0 < bs \<Longrightarrow> xs \<noteq> [] \<Longrightarrow> batches bs xs = take bs xs # batches bs (drop bs xs)"
  by (subst batches.simps) simp

text \<open>A store that holds a row is left alone, and nothing is counted as inserted.\<close>

lemma populate_products_safe_populated:
  "products d \<noteq> [] \<Longrightarrow>
   inserted (fst (populate_products_safe f d prods bs)) = 0
   \<and> snd (populate_products_safe f d prods bs) = d"
  by (cases f) (simp_all add: populate_products_safe_def)

text \<open>A call that succeeds on a list that is not empty leaves a store that holds a row.\<close>

lemma populate_products_safe_fills:
  assumes "populate_products_safe f d prods bs = (r, d')" and "success r" and "prods \<noteq> []"
  shows "products d' \<noteq> []"
proof (cases "products d = []")
  case False
  with assms show ?thesis
    by (cases f) (auto simp: populate_products_safe_def)
next
  case True
  show ?thesis
  proof (cases "bs = 0")
    case True
    with assms \<open>products d = []\<close> show ?thesis
      by (cases f) (auto simp: populate_products_safe_def)
  next
    case False
    then have b: "batches bs prods = take bs prods # batches bs (drop bs prods)"
      using assms(3) by (simp add: batches_first)
    have t: "take bs prods \<noteq> []"
      using False assms(3) by simp
    obtain tbl res where i: "insert_batches f 0 (batches bs prods) (products d) 0 = (tbl, res)"
      by (cases "insert_batches f 0 (batches bs prods) (products d) 0") blast
    from assms(1,2) \<open>products d = []\<close> False i
    obtain m where m: "res = Inr m" and d': "d' = d\<lparr>products := tbl\<rparr>"
      by (cases f; cases res) (auto simp: populate_products_safe_def)
    from i m b
    have "insert_batches f 0 (take bs prods # batches bs (drop bs prods)) (products d) 0
            = (tbl, Inr m)"
      by (simp only:)
    from this t have "tbl \<noteq> []"
      by (rule insert_batches_first)
    with d' show ?thesis by simp
  qed
qed

text \<open>
  Claim C5. Seeding a store that already holds items does nothing: it reports zero
  inserted rows and leaves every row as it was. After one call of the seeding that was
  not cut short by an error of the store, a second call with the same items reports zero
  inserted rows and leaves the store, and so the number of stored items, unchanged.
\<close>

theorem populate_products_safe_idempotent:
  assumes "populate_products_safe f1 d prods bs = (r1, d1)" and "success r1 \<or> f1 = No_fault"
  shows "inserted (fst (populate_products_safe f2 d1 prods bs)) = 0
       \<and> snd (populate_products_safe f2 d1 prods bs) = d1
       \<and> length (products (snd (populate_products_safe f2 d1 prods bs))) = length (products d1)
       \<and> inserted (fst (populate_products_safe f2 (d\<lparr>products := q # qs\<rparr>) prods bs)) = 0
       \<and> snd (populate_products_safe f2 (d\<lparr>products := q # qs\<rparr>) prods bs)
           = d\<lparr>products := q # qs\<rparr>"
proof -
  have second: "inserted (fst (populate_products_safe f2 d1 prods bs)) = 0
       \<and> snd (populate_products_safe f2 d1 prods bs) = d1"
  proof (cases "products d1 = []")
    case False
    then show ?thesis by (rule populate_products_safe_populated)
  next
    case True
    show ?thesis
    proof (cases "bs = 0")
      case z: True
      with True show ?thesis
        by (cases f2) (simp_all add: populate_products_safe_def)
    next
      case nz: False
      have "prods = []"
      proof (rule ccontr)
        assume ne: "prods \<noteq> []"
        have ok: "success r1"
        proof (rule ccontr)
          assume n: "\<not> success r1"
          with assms(2) have f: "f1 = No_fault" by simp
          obtain tbl res
            where i: "insert_batches No_fault 0 (batches bs prods) (products d) 0 = (tbl, res)"
            by (cases "insert_batches No_fault 0 (batches bs prods) (products d) 0") blast
          then obtain m where "res = Inr m"
            by (blast dest: insert_batches_no_fault)
          with assms(1) n f i nz show False
            by (auto simp: populate_products_safe_def Let_def split: if_splits)
        qed
        from assms(1) ok ne have "products d1 \<noteq> []"
          by (rule populate_products_safe_fills)
        with True show False by simp
      qed
      with True nz show ?thesis
        by (cases f2) (simp_all add: populate_products_safe_def batches_empty)
    qed
  qed
  have populated: "inserted (fst (populate_products_safe f2 (d\<lparr>products := q # qs\<rparr>) prods bs)) = 0
       \<and> snd (populate_products_safe f2 (d\<lparr>products := q # qs\<rparr>) prods bs)
           = d\<lparr>products := q # qs\<rparr>"
    by (rule populate_products_safe_populated) simp
  from second populated show ?thesis by simp
qed

theorem populate_products_safe_idempotent_witness:
  "populate_products_safe No_fault \<lparr>products = [], conversations = []\<rparr> [dragon, classic, bacon] 2
     = (\<lparr>success = True, inserted = 3, error = None\<rparr>,
        \<lparr>products = [dragon, classic, bacon], conversations = []\<rparr>)
   \<and> (success \<lparr>success = True, inserted = 3, error = None\<rparr> \<or> No_fault = No_fault)
   \<and> inserted (fst (populate_products_safe No_fault
          \<lparr>products = [dragon, classic, bacon], conversations = []\<rparr> [dragon, classic, bacon] 2)) = 0
   \<and> snd (populate_products_safe No_fault
          \<lparr>products = [dragon, classic, bacon], conversations = []\<rparr> [dragon, classic, bacon] 2)
       = \<lparr>products = [dragon, classic, bacon], conversations = []\<rparr>
   \<and> length (products (snd (populate_products_safe No_fault
          \<lparr>products = [dragon, classic, bacon], conversations = []\<rparr> [dragon, classic, bacon] 2)))
       = length (products \<lparr>products = [dragon, classic, bacon], conversations = []\<rparr>)"
proof -
  have h1: "populate_products_safe No_fault \<lparr>products = [], conversations = []\<rparr>
              [dragon, classic, bacon] 2
     = (\<lparr>success = True, inserted = 3, error = None\<rparr>,
        \<lparr>products = [dragon, classic, bacon], conversations = []\<rparr>)"
    by code_simp
  have h2: "success \<lparr>success = True, inserted = 3, error = None\<rparr> \<or> No_fault = No_fault"
    by simp
  from h1 h2 populate_products_safe_idempotent [OF h1 h2, of No_fault dragon "[]"]
  show ?thesis by simp
qed

end
